theory Spec2Isabelle
  imports Complex_Main
begin

section \<open>Data model (models/Comment.js)\<close>

text \<open>
  The schema and its methods are the second part of src/backend/server.js.
  An ObjectId is a 12-byte value; it is modelled by the natural number it denotes, so
  that \<open>a.toString() === b.toString()\<close> is equality. A Date is its number of
  milliseconds. JavaScript numbers are modelled by mathematical integers, which is
  exact as long as every value stays below \<open>2^53\<close>.
\<close>

type_synonym objectId = nat
type_synonym date = int

text \<open>An entry of \<open>likes\<close> or \<open>dislikes\<close>: \<open>{ user, createdAt }\<close>.\<close>

record reaction =
  user :: objectId
  reactedAt :: date

text \<open>
  The fields of \<open>commentSchema\<close>. \<open>oid\<close> is \<open>_id\<close>; \<open>parentComment\<close> is
  \<open>None\<close> for \<open>null\<close>; \<open>likes\<close> and \<open>dislikes\<close> are arrays, in push order.
\<close>

record comment =
  oid :: objectId
  content :: string
  author :: objectId
  parentComment :: "objectId option"
  likes :: "reaction list"
  dislikes :: "reaction list"
  isEdited :: bool
  editedAt :: "date option"
  isActive :: bool
  createdAt :: date

definition virtual_likeCount :: "comment \<Rightarrow> nat" where
  "virtual_likeCount c = length (likes c)"

definition virtual_dislikeCount :: "comment \<Rightarrow> nat" where
  "virtual_dislikeCount c = length (dislikes c)"

definition isLikedBy :: "comment \<Rightarrow> objectId \<Rightarrow> bool" where
  "isLikedBy c userId = list_ex (\<lambda>like. user like = userId) (likes c)"

definition isDislikedBy :: "comment \<Rightarrow> objectId \<Rightarrow> bool" where
  "isDislikedBy c userId = list_ex (\<lambda>dislike. user dislike = userId) (dislikes c)"

text \<open>
  The three reaction methods change the document in memory and end with
  \<open>return this.save()\<close>; the write to the collection is \<open>save\<close> below, which the
  controllers apply to the result. \<open>now\<close> is the value of \<open>Date.now\<close> that the
  schema default gives a pushed entry.
\<close>

definition addLike :: "objectId \<Rightarrow> date \<Rightarrow> comment \<Rightarrow> comment" where
  "addLike userId now c =
     (let c1 = c\<lparr>dislikes := filter (\<lambda>dislike. user dislike \<noteq> userId) (dislikes c)\<rparr>
      in if \<not> isLikedBy c1 userId
         then c1\<lparr>likes := likes c1 @ [\<lparr>user = userId, reactedAt = now\<rparr>]\<rparr>
         else c1)"

definition addDislike :: "objectId \<Rightarrow> date \<Rightarrow> comment \<Rightarrow> comment" where
  "addDislike userId now c =
     (let c1 = c\<lparr>likes := filter (\<lambda>like. user like \<noteq> userId) (likes c)\<rparr>
      in if \<not> isDislikedBy c1 userId
         then c1\<lparr>dislikes := dislikes c1 @ [\<lparr>user = userId, reactedAt = now\<rparr>]\<rparr>
         else c1)"

definition removeReaction :: "objectId \<Rightarrow> comment \<Rightarrow> comment" where
  "removeReaction userId c =
     c\<lparr>likes := filter (\<lambda>like. user like \<noteq> userId) (likes c),
       dislikes := filter (\<lambda>dislike. user dislike \<noteq> userId) (dislikes c)\<rparr>"

definition canModify :: "comment \<Rightarrow> objectId \<Rightarrow> bool" where
  "canModify c userId = (author c = userId)"

subsection \<open>Sequences of reactions\<close>

datatype reactionOp = Like objectId date | Dislike objectId date | Remove objectId

fun applyOp :: "comment \<Rightarrow> reactionOp \<Rightarrow> comment" where
  "applyOp c (Like u t) = addLike u t c"
| "applyOp c (Dislike u t) = addDislike u t c"
| "applyOp c (Remove u) = removeReaction u c"

text \<open>
  The invariant of the reaction sets: at most one entry per user in each array, and no
  user in both.
\<close>

definition reaction_inv :: "comment \<Rightarrow> bool" where
  "reaction_inv c \<longleftrightarrow>
     distinct (map user (likes c)) \<and> distinct (map user (dislikes c)) \<and>
     (\<forall>u \<in> set (map user (likes c)). u \<notin> set (map user (dislikes c)))"

section \<open>Content validation (utils/validation.js and the schema)\<close>

text \<open>
  The validation chains are the second part of src/backend/config/database.js.
  The sanitizers and the validator of the chain
  \<open>body('content').trim().isLength({ min: 1, max: 500 }).escape()\<close> come from the
  validator library; they are written out here as the library documents them.
  A character is one \<open>char\<close>; the white space that \<open>trim\<close> strips is \<open>\s\<close>
  within that range.
\<close>

definition isWhitespace :: "char \<Rightarrow> bool" where
  "isWhitespace ch \<longleftrightarrow>
     ch \<in> set [CHR 0x09, CHR 0x0A, CHR 0x0B, CHR 0x0C, CHR 0x0D, CHR 0x20, CHR 0xA0]"

definition trim :: "string \<Rightarrow> string" where
  "trim s = rev (dropWhile isWhitespace (rev (dropWhile isWhitespace s)))"

definition isLength :: "nat \<Rightarrow> nat \<Rightarrow> string \<Rightarrow> bool" where
  "isLength lo hi s \<longleftrightarrow> lo \<le> length s \<and> length s \<le> hi"

fun escapeChar :: "char \<Rightarrow> string" where
  "escapeChar ch =
     (if ch = CHR ''&'' then ''&amp;''
      else if ch = CHR 0x22 then ''&quot;''
      else if ch = CHR 0x27 then ''&#x27;''
      else if ch = CHR ''<'' then ''&lt;''
      else if ch = CHR ''>'' then ''&gt;''
      else if ch = CHR ''/'' then ''&#x2F;''
      else if ch = CHR 0x5C then ''&#x5C;''
      else if ch = CHR 0x60 then ''&#96;''
      else [ch])"

definition escape :: "string \<Rightarrow> string" where
  "escape s = concat (map escapeChar s)"

text \<open>
  \<open>validateCreateComment\<close> and \<open>validateUpdateComment\<close> run the same chain on
  \<open>content\<close>: the first component says whether \<open>validationResult(req)\<close> is empty, the
  second is \<open>req.body.content\<close> after the sanitizers. (\<open>parentComment\<close> and the
  \<open>:id\<close> parameter are typed as ObjectIds here, so their format checks always pass.)
\<close>

definition validateContent :: "string \<Rightarrow> bool \<times> string" where
  "validateContent raw = (let t = trim raw in (isLength 1 500 t, escape t))"

text \<open>
  What the schema does with \<open>content\<close> when a document is validated on
  \<open>create\<close> or \<open>save\<close>: \<open>trim: true\<close> is a setter, \<open>required\<close> refuses the empty
  string and \<open>maxlength\<close> is 1000. A failure is thrown and reaches the controller's
  \<open>catch\<close>.
\<close>

definition schemaValid :: "comment \<Rightarrow> bool" where
  "schemaValid c \<longleftrightarrow> content c \<noteq> [] \<and> length (content c) \<le> 1000"

text \<open>
  The document that \<open>Comment.create({ content, author, parentComment })\<close> builds: the
  schema defaults fill the other fields; \<open>newId\<close> is the \<open>_id\<close> the driver picks.
\<close>

definition createdDocument :: "objectId \<Rightarrow> date \<Rightarrow> string \<Rightarrow> objectId \<Rightarrow> objectId option \<Rightarrow> comment" where
  "createdDocument newId now text userId parent =
     \<lparr>oid = newId, content = trim text, author = userId, parentComment = parent,
      likes = [], dislikes = [], isEdited = False, editedAt = None,
      isActive = True, createdAt = now\<rparr>"

section \<open>The collection\<close>

text \<open>
  The collection is the list of its documents. \<open>save\<close> writes a loaded document back
  under its \<open>_id\<close>. Validation on \<open>save\<close> is modelled where a controller changes
  \<open>content\<close>; the other writes leave \<open>content\<close> as it was validated when written.
  Storage failures are left out.
\<close>

type_synonym store = "comment list"

definition findById :: "store \<Rightarrow> objectId \<Rightarrow> comment option" where
  "findById db i = find (\<lambda>c. oid c = i) db"

definition save :: "store \<Rightarrow> comment \<Rightarrow> store" where
  "save db c = map (\<lambda>d. if oid d = oid c then c else d) db"

definition countDocuments :: "(comment \<Rightarrow> bool) \<Rightarrow> store \<Rightarrow> nat" where
  "countDocuments query db = length (filter query db)"

definition topLevelActive :: "comment \<Rightarrow> bool" where
  "topLevelActive c \<longleftrightarrow> isActive c \<and> parentComment c = None"

section \<open>Events and responses\<close>

datatype reactionType = ReactLike | ReactDislike | ReactRemove

record reactionData =
  ev_commentId :: objectId
  ev_type :: reactionType
  ev_likeCount :: nat
  ev_dislikeCount :: nat
  ev_userId :: objectId

datatype event =
    NewReply comment
  | NewComment comment nat
  | ReplyUpdated comment
  | CommentUpdated comment
  | ReplyDeleted objectId
  | CommentDeleted objectId nat
  | ReplyReaction reactionData
  | CommentReaction reactionData

text \<open>
  A comment as a listing returns it and as the client holds it (the \<open>Comment\<close>
  interface of services/api.ts): the document and the fields derived for the caller.
\<close>

record listed = comment +
  isLikedByUser :: bool
  isDislikedByUser :: bool
  canEdit :: bool
  likeCount :: nat
  dislikeCount :: nat
  engagementScore :: int
  replyCount :: "nat option"

record pagination =
  currentPage :: int
  limit :: int
  total :: int
  totalPages :: int
  hasNextPage :: bool
  hasPrevPage :: bool
  isFirstPage :: bool
  isLastPage :: bool
  startIndex :: int
  endIndex :: int
  remainingItems :: int

text \<open>
  \<open>Failure code message\<close> is \<open>res.status(code).json({ success: false, message })\<close>;
  \<open>PageExceeds\<close> is the 400 answer that also carries \<open>currentPage\<close>,
  \<open>totalPages\<close> and \<open>total\<close>; the others are the successful answers.
\<close>

datatype response =
    Failure nat string
  | PageExceeds int int int
  | CommentResult nat string comment
  | Deleted
  | ReactionResult string nat nat bool bool
  | Listing "listed list" pagination

text \<open>A mutating controller returns its answer, the collection and the events emitted.\<close>

type_synonym outcome = "response \<times> store \<times> event list"

section \<open>Controllers (controllers/commentController.js)\<close>

subsection \<open>Create, update, delete\<close>

text \<open>
  \<open>userId\<close> is \<open>req.user.id\<close>, which the \<open>protect\<close> middleware has set;
  \<open>raw\<close> is the \<open>content\<close> of the request body before the validation chain of
  the route has run.
\<close>

definition createComment ::
  "store \<Rightarrow> objectId \<Rightarrow> date \<Rightarrow> objectId \<Rightarrow> string \<Rightarrow> objectId option \<Rightarrow> outcome" where
  "createComment db newId now userId raw parent =
     (let (valid, text) = validateContent raw in
      if \<not> valid then (Failure 400 ''Validation errors'', db, [])
      else if (case parent of
                 None \<Rightarrow> False
               | Some p \<Rightarrow> (case findById db p of
                              None \<Rightarrow> True
                            | Some parentExists \<Rightarrow> \<not> isActive parentExists))
      then (Failure 400 ''Parent comment not found'', db, [])
      else
        let c = createdDocument newId now text userId parent in
        if \<not> schemaValid c then (Failure 500 ''Server error creating comment'', db, [])
        else
          let db' = db @ [c];
              totalCount = countDocuments topLevelActive db'
          in (CommentResult 201 ''Comment created successfully'' c, db',
              [if parent \<noteq> None then NewReply c else NewComment c totalCount]))"

definition updateComment ::
  "store \<Rightarrow> date \<Rightarrow> objectId \<Rightarrow> objectId \<Rightarrow> string \<Rightarrow> outcome" where
  "updateComment db now userId i raw =
     (let (valid, text) = validateContent raw in
      if \<not> valid then (Failure 400 ''Validation errors'', db, [])
      else
        case findById db i of
          None \<Rightarrow> (Failure 404 ''Comment not found'', db, [])
        | Some c \<Rightarrow>
            if \<not> isActive c then (Failure 404 ''Comment not found'', db, [])
            else if \<not> canModify c userId
            then (Failure 403 ''Not authorized to edit this comment'', db, [])
            else
              let c' = c\<lparr>content := trim text, isEdited := True, editedAt := Some now\<rparr> in
              if \<not> schemaValid c' then (Failure 500 ''Server error updating comment'', db, [])
              else (CommentResult 200 ''Comment updated successfully'' c', save db c',
                    [if parentComment c' \<noteq> None then ReplyUpdated c' else CommentUpdated c']))"

definition deleteComment :: "store \<Rightarrow> objectId \<Rightarrow> objectId \<Rightarrow> outcome" where
  "deleteComment db userId i =
     (case findById db i of
        None \<Rightarrow> (Failure 404 ''Comment not found'', db, [])
      | Some c \<Rightarrow>
          if \<not> canModify c userId
          then (Failure 403 ''Not authorized to delete this comment'', db, [])
          else
            let c' = c\<lparr>isActive := False\<rparr>;
                db' = save db c'
            in (Deleted, db',
                [if parentComment c' \<noteq> None then ReplyDeleted (oid c')
                 else CommentDeleted (oid c') (countDocuments topLevelActive db')]))"

subsection \<open>Like, dislike, remove reaction\<close>

text \<open>
  The controller \<open>removeReaction\<close> is \<open>removeReactionHandler\<close> here, the name
  being taken by the method of the model. \<open>reactionEvent\<close> is the
  \<open>reactionData\<close> that each of the three controllers builds and emits as
  \<open>replyReaction\<close> or \<open>commentReaction\<close>.
\<close>

definition reactionEvent :: "comment \<Rightarrow> reactionType \<Rightarrow> objectId \<Rightarrow> event" where
  "reactionEvent c ty userId =
     (let reactionData =
            \<lparr>ev_commentId = oid c, ev_type = ty,
             ev_likeCount = virtual_likeCount c, ev_dislikeCount = virtual_dislikeCount c,
             ev_userId = userId\<rparr>
      in if parentComment c \<noteq> None then ReplyReaction reactionData
         else CommentReaction reactionData)"

definition likeComment :: "store \<Rightarrow> date \<Rightarrow> objectId \<Rightarrow> objectId \<Rightarrow> outcome" where
  "likeComment db now userId i =
     (case findById db i of
        None \<Rightarrow> (Failure 404 ''Comment not found'', db, [])
      | Some c \<Rightarrow>
          if \<not> isActive c then (Failure 404 ''Comment not found'', db, [])
          else
            let c' = addLike userId now c in
            (ReactionResult ''Comment liked successfully''
               (virtual_likeCount c') (virtual_dislikeCount c') True False,
             save db c', [reactionEvent c' ReactLike userId]))"

definition dislikeComment :: "store \<Rightarrow> date \<Rightarrow> objectId \<Rightarrow> objectId \<Rightarrow> outcome" where
  "dislikeComment db now userId i =
     (case findById db i of
        None \<Rightarrow> (Failure 404 ''Comment not found'', db, [])
      | Some c \<Rightarrow>
          if \<not> isActive c then (Failure 404 ''Comment not found'', db, [])
          else
            let c' = addDislike userId now c in
            (ReactionResult ''Comment disliked successfully''
               (virtual_likeCount c') (virtual_dislikeCount c') False True,
             save db c', [reactionEvent c' ReactDislike userId]))"

definition removeReactionHandler :: "store \<Rightarrow> objectId \<Rightarrow> objectId \<Rightarrow> outcome" where
  "removeReactionHandler db userId i =
     (case findById db i of
        None \<Rightarrow> (Failure 404 ''Comment not found'', db, [])
      | Some c \<Rightarrow>
          if \<not> isActive c then (Failure 404 ''Comment not found'', db, [])
          else
            let c' = removeReaction userId c in
            (ReactionResult ''Reaction removed successfully''
               (virtual_likeCount c') (virtual_dislikeCount c') False False,
             save db c', [reactionEvent c' ReactRemove userId]))"

subsection \<open>Ordering of a query\<close>

text \<open>
  \<open>.sort(sortObj)\<close> hands the ordering to the document store, which is not code of this
  repository. It is written out here as the store documents it: the documents are
  ordered field by field of \<open>sortObj\<close>; a date compares as a number; for a
  descending sort an array-valued field is represented by its greatest element, an
  empty array coming below every other value; the elements of \<open>likes\<close> and
  \<open>dislikes\<close> are embedded documents, compared field by field. Every direction in
  the source's sort objects is \<open>-1\<close>, so \<open>sortObj\<close> is the list of its field names.
  Documents that compare equal keep their order.
\<close>

fun lex_le :: "int list \<Rightarrow> int list \<Rightarrow> bool" where
  "lex_le [] ys = True"
| "lex_le (x # xs) [] = False"
| "lex_le (x # xs) (y # ys) = (x < y \<or> (x = y \<and> lex_le xs ys))"

definition entryKey :: "reaction \<Rightarrow> int list" where
  "entryKey r = [int (user r), reactedAt r]"

definition largest :: "int list list \<Rightarrow> int list" where
  "largest ks = foldl (\<lambda>m k. if lex_le m k then k else m) [] ks"

definition fieldKey :: "string \<Rightarrow> comment \<Rightarrow> int list" where
  "fieldKey f c =
     (if f = ''createdAt'' then [createdAt c]
      else if f = ''likes'' then largest (map entryKey (likes c))
      else if f = ''dislikes'' then largest (map entryKey (dislikes c))
      else [])"

fun comes_first :: "string list \<Rightarrow> comment \<Rightarrow> comment \<Rightarrow> bool" where
  "comes_first [] a b = True"
| "comes_first (f # fs) a b =
     (if fieldKey f a = fieldKey f b then comes_first fs a b
      else lex_le (fieldKey f b) (fieldKey f a))"

fun insertBy :: "('a \<Rightarrow> 'a \<Rightarrow> bool) \<Rightarrow> 'a \<Rightarrow> 'a list \<Rightarrow> 'a list" where
  "insertBy first x [] = [x]"
| "insertBy first x (y # ys) =
     (if first x y then x # y # ys else y # insertBy first x ys)"

definition sortBy :: "('a \<Rightarrow> 'a \<Rightarrow> bool) \<Rightarrow> 'a list \<Rightarrow> 'a list" where
  "sortBy first xs = foldr (insertBy first) xs []"

definition sortObjOf :: "string \<Rightarrow> string list" where
  "sortObjOf sortOpt =
     (if sortOpt = ''mostLiked'' then [''likes'', ''createdAt'']
      else if sortOpt = ''mostDisliked'' then [''dislikes'', ''createdAt'']
      else [''createdAt''])"

definition validSortOptions :: "string list" where
  "validSortOptions = [''newest'', ''mostLiked'', ''mostDisliked'']"

subsection \<open>Listing\<close>

text \<open>\<open>parseInt(v) || d\<close>: \<open>None\<close> is a missing or unreadable number (\<open>NaN\<close>).\<close>

definition orDefault :: "int option \<Rightarrow> int \<Rightarrow> int" where
  "orDefault v d = (case v of None \<Rightarrow> d | Some n \<Rightarrow> if n = 0 then d else n)"

text \<open>The \<open>parentComment\<close> of the query string: absent or empty, not an ObjectId, or one.\<close>

datatype idParam = Absent | Malformed | Valid objectId

text \<open>
  The derived fields a listing adds to each document; \<open>caller\<close> is \<open>req.user.id\<close>,
  or \<open>None\<close> for an anonymous request; \<open>rc\<close> is the populated \<open>replyCount\<close>.
\<close>

definition annotate :: "objectId option \<Rightarrow> nat option \<Rightarrow> comment \<Rightarrow> listed" where
  "annotate caller rc c =
     comment.extend c
       (listed.fields
          (case caller of None \<Rightarrow> False | Some u \<Rightarrow> list_ex (\<lambda>like. user like = u) (likes c))
          (case caller of None \<Rightarrow> False | Some u \<Rightarrow> list_ex (\<lambda>dislike. user dislike = u) (dislikes c))
          (case caller of None \<Rightarrow> False | Some u \<Rightarrow> author c = u)
          (length (likes c))
          (length (dislikes c))
          (int (length (likes c)) - int (length (dislikes c)))
          rc)"

definition populateReplyCount :: "store \<Rightarrow> comment \<Rightarrow> nat" where
  "populateReplyCount db c =
     countDocuments (\<lambda>d. parentComment d = Some (oid c) \<and> isActive d) db"

definition totalPagesOf :: "int \<Rightarrow> int \<Rightarrow> int" where
  "totalPagesOf tot lmt = \<lceil>real_of_int tot / real_of_int lmt\<rceil>"

text \<open>The pagination block, which both listings compute in the same way.\<close>

definition paginationOf :: "int \<Rightarrow> int \<Rightarrow> int \<Rightarrow> pagination" where
  "paginationOf page lmt tot =
     (let skip = (page - 1) * lmt;
          pages = totalPagesOf tot lmt
      in \<lparr>currentPage = page, limit = lmt, total = tot, totalPages = pages,
          hasNextPage = (page < pages), hasPrevPage = (page > 1),
          isFirstPage = (page = 1), isLastPage = (page = pages),
          startIndex = skip + 1, endIndex = min (skip + lmt) tot,
          remainingItems = max 0 (tot - (skip + lmt))\<rparr>)"

definition getComments ::
  "store \<Rightarrow> objectId option \<Rightarrow> int option \<Rightarrow> int option \<Rightarrow> string option \<Rightarrow> idParam \<Rightarrow> response" where
  "getComments db caller qpage qlimit qsort qparent =
     (let page = max 1 (orDefault qpage 1);
          lmt = min (max 1 (orDefault qlimit 10)) 100;
          sortOpt = (case qsort of None \<Rightarrow> ''newest'' | Some s \<Rightarrow> if s = [] then ''newest'' else s);
          skip = (page - 1) * lmt
      in if skip < 0 then Failure 400 ''Invalid pagination parameters''
         else if sortOpt \<notin> set validSortOptions then Failure 400 ''Invalid sort option''
         else if qparent = Malformed then Failure 400 ''Invalid parent comment ID''
         else
           let query = (\<lambda>c. isActive c \<and>
                             parentComment c = (case qparent of Valid p \<Rightarrow> Some p | _ \<Rightarrow> None));
               comments = take (nat lmt) (drop (nat skip)
                            (sortBy (comes_first (sortObjOf sortOpt)) (filter query db)));
               tot = int (countDocuments query db)
           in if comments = [] \<and> page > totalPagesOf tot lmt \<and> totalPagesOf tot lmt > 0
              then PageExceeds page (totalPagesOf tot lmt) tot
              else Listing
                     (map (\<lambda>c. annotate caller (Some (populateReplyCount db c)) c) comments)
                     (paginationOf page lmt tot))"

definition getReplies ::
  "store \<Rightarrow> objectId option \<Rightarrow> objectId \<Rightarrow> int option \<Rightarrow> int option \<Rightarrow> string option \<Rightarrow> response" where
  "getReplies db caller i qpage qlimit qsort =
     (let page = max 1 (orDefault qpage 1);
          lmt = min (max 1 (orDefault qlimit 10)) 100;
          sortOpt = (case qsort of None \<Rightarrow> ''newest'' | Some s \<Rightarrow> if s = [] then ''newest'' else s);
          skip = (page - 1) * lmt
      in if skip < 0 then Failure 400 ''Invalid pagination parameters''
         else if sortOpt \<notin> set validSortOptions then Failure 400 ''Invalid sort option''
         else if (case findById db i of None \<Rightarrow> True | Some parent \<Rightarrow> \<not> isActive parent)
         then Failure 404 ''Parent comment not found or inactive''
         else
           let query = (\<lambda>c. parentComment c = Some i \<and> isActive c);
               replies = take (nat lmt) (drop (nat skip)
                           (sortBy (comes_first (sortObjOf sortOpt)) (filter query db)));
               tot = int (countDocuments query db)
           in if replies = [] \<and> page > totalPagesOf tot lmt \<and> totalPagesOf tot lmt > 0
              then PageExceeds page (totalPagesOf tot lmt) tot
              else Listing (map (annotate caller None) replies) (paginationOf page lmt tot))"

section \<open>The client (components/Comments/CommentItem.tsx, CommentList.tsx)\<close>

text \<open>
  The state of one \<open>CommentItem\<close> that its socket handlers change; \<open>localUser\<close> is
  \<open>user?.id\<close>, \<open>None\<close> when nobody is logged in.
\<close>

record itemState =
  currentComment :: listed
  replies :: "listed list"
  realTimeReplies :: "listed list"

text \<open>
  \<open>applyReaction\<close> is what \<open>handleCommentReaction\<close> does to the comment and
  \<open>handleReplyReaction\<close> to a reply, in the same words: the counts are replaced, and
  the flags are set when the event is the local user's.
\<close>

definition applyReaction :: "reactionData \<Rightarrow> objectId option \<Rightarrow> listed \<Rightarrow> listed" where
  "applyReaction data localUser prev =
     (let newComment = prev\<lparr>likeCount := ev_likeCount data, dislikeCount := ev_dislikeCount data\<rparr>
      in if Some (ev_userId data) = localUser
         then (case ev_type data of
                 ReactLike \<Rightarrow> newComment\<lparr>isLikedByUser := True, isDislikedByUser := False\<rparr>
               | ReactDislike \<Rightarrow> newComment\<lparr>isLikedByUser := False, isDislikedByUser := True\<rparr>
               | ReactRemove \<Rightarrow> newComment\<lparr>isLikedByUser := False, isDislikedByUser := False\<rparr>)
         else newComment)"

definition handleCommentReaction :: "reactionData \<Rightarrow> objectId option \<Rightarrow> itemState \<Rightarrow> itemState" where
  "handleCommentReaction data localUser s =
     (if ev_commentId data = oid (currentComment s)
      then s\<lparr>currentComment := applyReaction data localUser (currentComment s)\<rparr>
      else s)"

definition handleReplyReaction :: "reactionData \<Rightarrow> objectId option \<Rightarrow> itemState \<Rightarrow> itemState" where
  "handleReplyReaction data localUser s =
     (if ev_commentId data = oid (currentComment s) then s
      else
        let updateReplyReaction =
              (\<lambda>reply. if oid reply = ev_commentId data
                        then applyReaction data localUser reply else reply)
        in s\<lparr>replies := map updateReplyReaction (replies s),
             realTimeReplies := map updateReplyReaction (realTimeReplies s)\<rparr>)"

definition handleNewReply :: "listed \<Rightarrow> itemState \<Rightarrow> itemState" where
  "handleNewReply newComment s =
     (if parentComment newComment = Some (oid (currentComment s))
      then s\<lparr>realTimeReplies :=
                (if \<not> list_ex (\<lambda>reply. oid reply = oid newComment) (realTimeReplies s)
                 then newComment # realTimeReplies s
                 else realTimeReplies s),
              currentComment :=
                (currentComment s)\<lparr>replyCount :=
                   Some ((case replyCount (currentComment s) of None \<Rightarrow> 0 | Some n \<Rightarrow> n) + 1)\<rparr>\<rparr>
      else s)"

text \<open>The replies that are displayed: \<open>allReplies\<close>.\<close>

definition allReplies :: "itemState \<Rightarrow> listed list" where
  "allReplies s =
     (let serverReplyIds = set (map oid (replies s));
          uniqueRealTimeReplies = filter (\<lambda>reply. oid reply \<notin> serverReplyIds) (realTimeReplies s)
      in sortBy (\<lambda>a b. createdAt b - createdAt a \<le> 0) (uniqueRealTimeReplies @ replies s))"

text \<open>The \<open>commentReaction\<close> listener of \<open>CommentList\<close>, on its list of comments.\<close>

definition onCommentReaction :: "reactionData \<Rightarrow> objectId option \<Rightarrow> listed list \<Rightarrow> listed list" where
  "onCommentReaction data localUser prev =
     map (\<lambda>c. if oid c = ev_commentId data
               then c\<lparr>likeCount := ev_likeCount data,
                      dislikeCount := ev_dislikeCount data,
                      isLikedByUser :=
                        (if Some (ev_userId data) = localUser
                         then (if ev_type data = ReactLike then True
                               else if ev_type data = ReactRemove then False
                               else isLikedByUser c)
                         else isLikedByUser c),
                      isDislikedByUser :=
                        (if Some (ev_userId data) = localUser
                         then (if ev_type data = ReactDislike then True
                               else if ev_type data = ReactRemove then False
                               else isDislikedByUser c)
                         else isDislikedByUser c)\<rparr>
               else c) prev"

section \<open>Names for the statements\<close>

text \<open>
  What a listing derives from its query string, and the parts of its answer, under
  names of their own.
\<close>

definition pageOf :: "int option \<Rightarrow> int" where
  "pageOf qpage = max 1 (orDefault qpage 1)"

definition limitOf :: "int option \<Rightarrow> int" where
  "limitOf qlimit = min (max 1 (orDefault qlimit 10)) 100"

definition sortOf :: "string option \<Rightarrow> string" where
  "sortOf qsort = (case qsort of None \<Rightarrow> ''newest'' | Some s \<Rightarrow> if s = [] then ''newest'' else s)"

definition commentsQuery :: "idParam \<Rightarrow> comment \<Rightarrow> bool" where
  "commentsQuery qparent c \<longleftrightarrow>
     isActive c \<and> parentComment c = (case qparent of Valid p \<Rightarrow> Some p | _ \<Rightarrow> None)"

definition repliesQuery :: "objectId \<Rightarrow> comment \<Rightarrow> bool" where
  "repliesQuery i c \<longleftrightarrow> parentComment c = Some i \<and> isActive c"

definition paginationBlock :: "response \<Rightarrow> pagination option" where
  "paginationBlock r = (case r of Listing cs p \<Rightarrow> Some p | _ \<Rightarrow> None)"

definition listedComments :: "response \<Rightarrow> listed list" where
  "listedComments r = (case r of Listing cs p \<Rightarrow> cs | _ \<Rightarrow> [])"

section \<open>Concrete inputs\<close>

text \<open>A comment by user 7 that user 3 likes and user 4 dislikes.\<close>

definition sample :: comment where
  "sample =
     \<lparr>oid = 10, content = ''hello'', author = 7, parentComment = None,
      likes = [\<lparr>user = 3, reactedAt = 1\<rparr>], dislikes = [\<lparr>user = 4, reactedAt = 2\<rparr>],
      isEdited = False, editedAt = None, isActive = True, createdAt = 0\<rparr>"

text \<open>The same comment after its author has deleted it.\<close>

definition deletedSample :: comment where
  "deletedSample = sample\<lparr>isActive := False\<rparr>"

text \<open>A reply to it, and a reply to that reply.\<close>

definition replySample :: comment where
  "replySample =
     \<lparr>oid = 11, content = ''a reply'', author = 8, parentComment = Some 10,
      likes = [], dislikes = [], isEdited = False, editedAt = None,
      isActive = True, createdAt = 1\<rparr>"


text \<open>Twenty-five active top-level comments, created at the times 0 to 24.\<close>

definition store25 :: store where
  "store25 = map (\<lambda>n. createdDocument n (int n) ''c'' 1 None) [0..<25]"

text \<open>
  The client of user 4 showing the comment with one real-time reply, and two reaction
  events by user 3: one on the comment, one on the reply.
\<close>

definition listedSample :: listed where
  "listedSample = annotate (Some 4) (Some 1) sample"

definition listedReply :: listed where
  "listedReply = annotate (Some 4) None replySample"

definition itemSample :: itemState where
  "itemSample =
     \<lparr>currentComment = listedSample, replies = [], realTimeReplies = [listedReply]\<rparr>"

definition replyLikeEvent :: reactionData where
  "replyLikeEvent =
     \<lparr>ev_commentId = 11, ev_type = ReactLike, ev_likeCount = 1, ev_dislikeCount = 0,
      ev_userId = 3\<rparr>"

definition likeEvent :: reactionData where
  "likeEvent =
     \<lparr>ev_commentId = 10, ev_type = ReactLike, ev_likeCount = 2, ev_dislikeCount = 1,
      ev_userId = 3\<rparr>"

text \<open>
  Two top-level comments: the older one has one like, by user 9; the newer one has two,
  by users 1 and 2.
\<close>

definition onceLiked :: comment where
  "onceLiked =
     \<lparr>oid = 20, content = ''one like'', author = 7, parentComment = None,
      likes = [\<lparr>user = 9, reactedAt = 50\<rparr>], dislikes = [],
      isEdited = False, editedAt = None, isActive = True, createdAt = 1\<rparr>"

definition twiceLiked :: comment where
  "twiceLiked =
     \<lparr>oid = 21, content = ''two likes'', author = 7, parentComment = None,
      likes = [\<lparr>user = 1, reactedAt = 10\<rparr>, \<lparr>user = 2, reactedAt = 20\<rparr>], dislikes = [],
      isEdited = False, editedAt = None, isActive = True, createdAt = 2\<rparr>"

section \<open>The reaction state machine\<close>

lemma addLike_inv: "reaction_inv c \<Longrightarrow> reaction_inv (addLike u t c)"
  by (auto simp: reaction_inv_def addLike_def isLikedBy_def Let_def list_ex_iff distinct_map_filter)

lemma addDislike_inv: "reaction_inv c \<Longrightarrow> reaction_inv (addDislike u t c)"
  by (auto simp: reaction_inv_def addDislike_def isDislikedBy_def Let_def list_ex_iff distinct_map_filter)

lemma removeReaction_inv: "reaction_inv c \<Longrightarrow> reaction_inv (removeReaction u c)"
  by (auto simp: reaction_inv_def removeReaction_def distinct_map_filter)

lemma applyOp_inv: "reaction_inv c \<Longrightarrow> reaction_inv (applyOp c x)"
  by (cases x) (simp_all add: addLike_inv addDislike_inv removeReaction_inv)

lemma foldl_applyOp_inv: "reaction_inv c \<Longrightarrow> reaction_inv (foldl applyOp c ops)"
  by (induction ops arbitrary: c) (simp_all add: applyOp_inv)

lemma createdDocument_inv: "reaction_inv (createdDocument newId now body userId parent)"
  by (simp add: reaction_inv_def createdDocument_def)

text \<open>
  Claim C1. In each of \<open>likes\<close> and \<open>dislikes\<close> a user has at most one entry, and
  no user is in both: \<open>addLike\<close>, \<open>addDislike\<close> and \<open>removeReaction\<close> each keep
  this invariant, so every sequence of them keeps it, and it holds after every
  sequence applied to a newly created comment, whose arrays are empty.
\<close>

theorem reaction_sets_invariant:
  "reaction_inv c \<Longrightarrow>
     reaction_inv (addLike u t c) \<and> reaction_inv (addDislike u t c) \<and>
     reaction_inv (removeReaction u c) \<and> reaction_inv (foldl applyOp c ops) \<and>
     reaction_inv (foldl applyOp (createdDocument newId now body userId parent) ops)"
  by (simp add: addLike_inv addDislike_inv removeReaction_inv foldl_applyOp_inv
        createdDocument_inv)

theorem reaction_sets_invariant_witness:
  "reaction_inv sample \<and>
   reaction_inv (addLike 4 5 sample) \<and> reaction_inv (addDislike 4 5 sample) \<and>
   reaction_inv (removeReaction 4 sample) \<and>
   reaction_inv (foldl applyOp sample [Like 4 5, Dislike 3 6, Remove 4, Like 3 7]) \<and>
   reaction_inv (foldl applyOp (createdDocument 11 0 ''x'' 7 None)
                   [Like 4 5, Dislike 3 6, Remove 4, Like 3 7])"
proof -
  have h: "reaction_inv sample"
    by (simp add: reaction_inv_def sample_def)
  show ?thesis
    using h reaction_sets_invariant [OF h, where u = 4 and t = 5
        and ops = "[Like 4 5, Dislike 3 6, Remove 4, Like 3 7]"
        and newId = 11 and now = 0 and body = "''x''" and userId = 7 and parent = None]
    by simp
qed

section \<open>The collection and the reaction handlers\<close>

lemma findById_oid: "findById db i = Some c \<Longrightarrow> oid c = i"
  by (auto simp: findById_def dest: find_Some_iff[THEN iffD1])

lemma findById_save:
  "findById db i = Some c \<Longrightarrow> oid c' = i \<Longrightarrow> findById (save db c') i = Some c'"
  unfolding findById_def save_def
  by (induction db) (auto split: if_splits)

lemma save_save: "save (save db c) c = save db c"
  by (simp add: save_def)

lemma addLike_fields [simp]:
  "oid (addLike u t c) = oid c" "isActive (addLike u t c) = isActive c"
  "parentComment (addLike u t c) = parentComment c"
  by (simp_all add: addLike_def Let_def)

lemma addDislike_fields [simp]:
  "oid (addDislike u t c) = oid c" "isActive (addDislike u t c) = isActive c"
  "parentComment (addDislike u t c) = parentComment c"
  by (simp_all add: addDislike_def Let_def)

lemma removeReaction_fields [simp]:
  "oid (removeReaction u c) = oid c" "isActive (removeReaction u c) = isActive c"
  "parentComment (removeReaction u c) = parentComment c"
  by (simp_all add: removeReaction_def)

lemma addLike_twice: "addLike u t2 (addLike u t1 c) = addLike u t1 c"
  by (simp add: addLike_def Let_def isLikedBy_def list_ex_iff)

lemma addDislike_twice: "addDislike u t2 (addDislike u t1 c) = addDislike u t1 c"
  by (simp add: addDislike_def Let_def isDislikedBy_def list_ex_iff)

lemma removeReaction_twice: "removeReaction u (removeReaction u c) = removeReaction u c"
  by (simp add: removeReaction_def)

lemma filter_absent: "\<not> list_ex (\<lambda>r. user r = u) rs \<Longrightarrow> filter (\<lambda>r. user r \<noteq> u) rs = rs"
  by (induction rs) auto

lemma removeReaction_none:
  "\<not> isLikedBy c u \<Longrightarrow> \<not> isDislikedBy c u \<Longrightarrow> removeReaction u c = c"
  by (simp add: removeReaction_def isLikedBy_def isDislikedBy_def filter_absent)

lemma likeComment_active:
  "findById db i = Some c \<Longrightarrow> isActive c \<Longrightarrow>
   likeComment db now u i =
     (ReactionResult ''Comment liked successfully''
        (virtual_likeCount (addLike u now c)) (virtual_dislikeCount (addLike u now c)) True False,
      save db (addLike u now c), [reactionEvent (addLike u now c) ReactLike u])"
  by (simp add: likeComment_def Let_def)

text \<open>
  Claim C8. For an active comment, a second like by the same user gives the same
  answer, the same collection and the same event as the first one: the stored
  \<open>likes\<close> and \<open>dislikes\<close> of the comment are those after the first call, and the
  second call answers success with their sizes as the counts.
\<close>

theorem like_twice_same_as_once:
  assumes "findById db i = Some c" and "isActive c"
  shows "likeComment (fst (snd (likeComment db t1 u i))) t2 u i = likeComment db t1 u i \<and>
         findById (fst (snd (likeComment db t1 u i))) i = Some (addLike u t1 c) \<and>
         fst (likeComment (fst (snd (likeComment db t1 u i))) t2 u i) =
           ReactionResult ''Comment liked successfully''
             (length (likes (addLike u t1 c))) (length (dislikes (addLike u t1 c))) True False"
proof -
  let ?c1 = "addLike u t1 c"
  let ?db1 = "save db ?c1"
  have i: "oid c = i" using assms(1) by (rule findById_oid)
  have first: "likeComment db t1 u i =
     (ReactionResult ''Comment liked successfully''
        (virtual_likeCount ?c1) (virtual_dislikeCount ?c1) True False,
      ?db1, [reactionEvent ?c1 ReactLike u])"
    using assms by (rule likeComment_active)
  have found: "findById ?db1 i = Some ?c1"
    using assms(1) by (rule findById_save) (simp add: i)
  have act: "isActive ?c1" using assms(2) by simp
  have second: "likeComment ?db1 t2 u i = likeComment db t1 u i"
    unfolding likeComment_active [OF found act] first
    by (simp add: addLike_twice save_save)
  show ?thesis
    using second found by (simp add: first virtual_likeCount_def virtual_dislikeCount_def)
qed

theorem like_twice_same_as_once_witness:
  "findById [sample] 10 = Some sample \<and> isActive sample \<and>
   likeComment (fst (snd (likeComment [sample] 5 4 10))) 6 4 10 = likeComment [sample] 5 4 10 \<and>
   findById (fst (snd (likeComment [sample] 5 4 10))) 10 = Some (addLike 4 5 sample) \<and>
   fst (likeComment (fst (snd (likeComment [sample] 5 4 10))) 6 4 10) =
     ReactionResult ''Comment liked successfully'' 2 0 True False"
proof -
  have f: "findById [sample] 10 = Some sample"
    by (simp add: findById_def sample_def)
  have a: "isActive sample"
    by (simp add: sample_def)
  have n: "length (likes (addLike 4 5 sample)) = 2" "length (dislikes (addLike 4 5 sample)) = 0"
    by (simp_all add: addLike_def isLikedBy_def sample_def)
  note w = like_twice_same_as_once [OF f a, of 5 4 6, unfolded n]
  from f a w show ?thesis by blast
qed

lemma removeReactionHandler_active:
  "findById db i = Some c \<Longrightarrow> isActive c \<Longrightarrow>
   removeReactionHandler db u i =
     (ReactionResult ''Reaction removed successfully''
        (virtual_likeCount (removeReaction u c)) (virtual_dislikeCount (removeReaction u c))
        False False,
      save db (removeReaction u c), [reactionEvent (removeReaction u c) ReactRemove u])"
  by (simp add: removeReactionHandler_def Let_def)

text \<open>
  Claim C10. On an active comment, removing a reaction answers success whatever the
  user's reaction was, with the sizes of the two arrays as the counts. When the user
  has no reaction, the stored comment is left as it was and the counts are the current
  ones. A second removal gives the same answer, collection and event as the first.
\<close>

theorem removeReaction_always_succeeds:
  assumes "findById db i = Some c" and "isActive c"
  shows "fst (removeReactionHandler db u i) =
           ReactionResult ''Reaction removed successfully''
             (length (likes (removeReaction u c))) (length (dislikes (removeReaction u c)))
             False False \<and>
         (\<not> isLikedBy c u \<and> \<not> isDislikedBy c u \<longrightarrow>
            findById (fst (snd (removeReactionHandler db u i))) i = Some c \<and>
            fst (removeReactionHandler db u i) =
              ReactionResult ''Reaction removed successfully''
                (length (likes c)) (length (dislikes c)) False False) \<and>
         removeReactionHandler (fst (snd (removeReactionHandler db u i))) u i =
           removeReactionHandler db u i"
proof -
  let ?c1 = "removeReaction u c"
  let ?db1 = "save db ?c1"
  have i: "oid c = i" using assms(1) by (rule findById_oid)
  note first = removeReactionHandler_active [OF assms, of u]
  have found: "findById ?db1 i = Some ?c1"
    using assms(1) by (rule findById_save) (simp add: i)
  have act: "isActive ?c1" using assms(2) by simp
  have second: "removeReactionHandler ?db1 u i = removeReactionHandler db u i"
    unfolding removeReactionHandler_active [OF found act] first
    by (simp add: removeReaction_twice save_save)
  have none: "?c1 = c" if "\<not> isLikedBy c u" "\<not> isDislikedBy c u"
    using that by (rule removeReaction_none)
  show ?thesis
  proof (intro conjI impI)
    show "fst (removeReactionHandler db u i) =
           ReactionResult ''Reaction removed successfully''
             (length (likes ?c1)) (length (dislikes ?c1)) False False"
      by (simp add: first virtual_likeCount_def virtual_dislikeCount_def)
  next
    assume n: "\<not> isLikedBy c u \<and> \<not> isDislikedBy c u"
    then have e: "?c1 = c" using none by blast
    show "findById (fst (snd (removeReactionHandler db u i))) i = Some c"
      using found by (simp add: first e)
    show "fst (removeReactionHandler db u i) =
              ReactionResult ''Reaction removed successfully''
                (length (likes c)) (length (dislikes c)) False False"
      by (simp add: first e virtual_likeCount_def virtual_dislikeCount_def)
  next
    show "removeReactionHandler (fst (snd (removeReactionHandler db u i))) u i =
           removeReactionHandler db u i"
      using second by (simp add: first)
  qed
qed

theorem removeReaction_always_succeeds_witness:
  "findById [sample] 10 = Some sample \<and> isActive sample \<and>
   \<not> isLikedBy sample 5 \<and> \<not> isDislikedBy sample 5 \<and>
   fst (removeReactionHandler [sample] 5 10) =
     ReactionResult ''Reaction removed successfully'' 1 1 False False \<and>
   findById (fst (snd (removeReactionHandler [sample] 5 10))) 10 = Some sample \<and>
   removeReactionHandler (fst (snd (removeReactionHandler [sample] 5 10))) 5 10 =
     removeReactionHandler [sample] 5 10"
proof -
  have f: "findById [sample] 10 = Some sample"
    by (simp add: findById_def sample_def)
  have a: "isActive sample"
    by (simp add: sample_def)
  have n: "\<not> isLikedBy sample 5" "\<not> isDislikedBy sample 5"
    by (simp_all add: isLikedBy_def isDislikedBy_def sample_def)
  have l: "length (likes sample) = 1" "length (dislikes sample) = 1"
    by (simp_all add: sample_def)
  note w = removeReaction_always_succeeds [OF f a, of 5, unfolded l]
  from f a n w show ?thesis by blast
qed

section \<open>Missing and inactive comments\<close>

text \<open>
  Update, like, dislike and remove-reaction answer 404 for a comment that is missing
  or inactive, and change nothing; delete answers 404 for a missing comment.
\<close>

lemma not_found_when_missing_or_inactive:
  assumes "findById db i = None \<or> (\<exists>c. findById db i = Some c \<and> \<not> isActive c)"
  shows "likeComment db now u i = (Failure 404 ''Comment not found'', db, [])"
    and "dislikeComment db now u i = (Failure 404 ''Comment not found'', db, [])"
    and "removeReactionHandler db u i = (Failure 404 ''Comment not found'', db, [])"
    and "fst (validateContent raw) \<Longrightarrow>
         updateComment db now u i raw = (Failure 404 ''Comment not found'', db, [])"
  using assms
  by (auto simp: likeComment_def dislikeComment_def removeReactionHandler_def
      updateComment_def split: prod.splits)

lemma deleteComment_missing:
  "findById db i = None \<Longrightarrow> deleteComment db u i = (Failure 404 ''Comment not found'', db, [])"
  by (simp add: deleteComment_def)

text \<open>
  Claim C2. \<open>deleteComment\<close> tests only \<open>!comment\<close>, where the other four
  controllers test \<open>!comment || !comment.isActive\<close>: the author's delete of a
  comment that is already inactive answers success again and emits
  \<open>commentDeleted\<close> again, instead of 404.
\<close>

theorem deleteComment_inactive_succeeds:
  "findById [deletedSample] 10 = Some deletedSample \<and> \<not> isActive deletedSample \<and>
   canModify deletedSample 7 \<and>
   deleteComment [deletedSample] 7 10 = (Deleted, [deletedSample], [CommentDeleted 10 0])"
  by (simp add: deleteComment_def findById_def deletedSample_def sample_def canModify_def
      save_def countDocuments_def topLevelActive_def)

section \<open>Creating a reply\<close>






section \<open>Content length\<close>

text \<open>
  The validation chain accepts a content exactly when its trimmed length is between 1
  and 500, and a content outside that range is answered 400 by create and by update,
  with nothing stored and nothing emitted.
\<close>

lemma validateContent_accepts_iff:
  "fst (validateContent raw) \<longleftrightarrow> 1 \<le> length (trim raw) \<and> length (trim raw) \<le> 500"
  by (simp add: validateContent_def isLength_def Let_def)

lemma content_outside_range_rejected:
  assumes "length (trim raw) = 0 \<or> 500 < length (trim raw)"
  shows "createComment db newId now userId raw parent = (Failure 400 ''Validation errors'', db, [])"
    and "updateComment db now userId i raw = (Failure 400 ''Validation errors'', db, [])"
  using assms
  by (auto simp: createComment_def updateComment_def validateContent_def isLength_def Let_def)

text \<open>
  Claim C7. A content inside the range is not always accepted: \<open>escape\<close> runs after
  \<open>isLength\<close> and lengthens the text, and the schema's \<open>maxlength\<close> of 1000 then
  refuses it. 201 ampersands pass the chain, become 1005 characters, and create and
  update answer 500.
\<close>

theorem escaped_content_refused:
  "length (trim (replicate 201 CHR ''&'')) = 201 \<and>
   fst (validateContent (replicate 201 CHR ''&'')) \<and>
   length (snd (validateContent (replicate 201 CHR ''&''))) = 1005 \<and>
   createComment [] 1 5 7 (replicate 201 CHR ''&'') None =
     (Failure 500 ''Server error creating comment'', [], []) \<and>
   updateComment [sample] 5 7 10 (replicate 201 CHR ''&'') =
     (Failure 500 ''Server error updating comment'', [sample], [])"
proof (intro conjI)
  show "length (trim (replicate 201 CHR ''&'')) = 201"
    by code_simp
  show "fst (validateContent (replicate 201 CHR ''&''))"
    by code_simp
  show "length (snd (validateContent (replicate 201 CHR ''&''))) = 1005"
    by code_simp
  show "createComment [] 1 5 7 (replicate 201 CHR ''&'') None =
     (Failure 500 ''Server error creating comment'', [], [])"
    by code_simp
  show "updateComment [sample] 5 7 10 (replicate 201 CHR ''&'') =
     (Failure 500 ''Server error updating comment'', [sample], [])"
    by code_simp
qed

section \<open>Listings\<close>

lemma length_insertBy [simp]: "length (insertBy f x xs) = Suc (length xs)"
  by (induction xs) simp_all

lemma length_sortBy [simp]: "length (sortBy f xs) = length xs"
  unfolding sortBy_def by (induction xs) simp_all

lemma set_insertBy [simp]: "set (insertBy f x xs) = insert x (set xs)"
  by (induction xs) auto

lemma set_sortBy [simp]: "set (sortBy f xs) = set xs"
  unfolding sortBy_def by (induction xs) simp_all

lemma pageOf_ge: "1 \<le> pageOf qpage"
  by (simp add: pageOf_def)

lemma limitOf_range: "1 \<le> limitOf qlimit" "limitOf qlimit \<le> 100"
  by (simp_all add: limitOf_def)

lemma totalPagesOf_covers:
  assumes "0 < l"
  shows "tot \<le> totalPagesOf tot l * l"
proof -
  have "real_of_int tot / real_of_int l \<le> real_of_int (totalPagesOf tot l)"
    by (simp add: totalPagesOf_def)
  then have "real_of_int tot \<le> real_of_int (totalPagesOf tot l) * real_of_int l"
    using assms by (simp add: pos_divide_le_eq)
  then show ?thesis
    by (metis of_int_le_iff of_int_mult)
qed

lemma totalPagesOf_pos: "0 < l \<Longrightarrow> 0 < tot \<Longrightarrow> 0 < totalPagesOf tot l"
  by (simp add: totalPagesOf_def)

lemma totalPagesOf_zero: "totalPagesOf 0 l = 0"
  by (simp add: totalPagesOf_def)

lemma beyond_last_page_skips_all:
  assumes "0 < l" and "totalPagesOf tot l < page"
  shows "tot \<le> (page - 1) * l"
proof -
  have "totalPagesOf tot l \<le> page - 1" using assms(2) by simp
  then have "totalPagesOf tot l * l \<le> (page - 1) * l"
    using assms(1) by (simp add: mult_right_mono)
  with totalPagesOf_covers [OF assms(1), of tot] show ?thesis by linarith
qed

lemma getComments_unfold:
  "getComments db caller qpage qlimit qsort qparent =
     (if sortOf qsort \<notin> set validSortOptions then Failure 400 ''Invalid sort option''
      else if qparent = Malformed then Failure 400 ''Invalid parent comment ID''
      else
        let comments = take (nat (limitOf qlimit)) (drop (nat ((pageOf qpage - 1) * limitOf qlimit))
                         (sortBy (comes_first (sortObjOf (sortOf qsort)))
                            (filter (commentsQuery qparent) db)));
            tot = int (countDocuments (commentsQuery qparent) db)
        in if comments = [] \<and> pageOf qpage > totalPagesOf tot (limitOf qlimit)
                \<and> totalPagesOf tot (limitOf qlimit) > 0
           then PageExceeds (pageOf qpage) (totalPagesOf tot (limitOf qlimit)) tot
           else Listing
                  (map (\<lambda>c. annotate caller (Some (populateReplyCount db c)) c) comments)
                  (paginationOf (pageOf qpage) (limitOf qlimit) tot))"
proof -
  have "0 \<le> (pageOf qpage - 1) * limitOf qlimit"
    using pageOf_ge [of qpage] limitOf_range(1) [of qlimit] by simp
  then have nn: "\<not> (max 1 (orDefault qpage 1) - 1) * min (max 1 (orDefault qlimit 10)) 100 < 0"
    unfolding pageOf_def limitOf_def by linarith
  show ?thesis
    unfolding getComments_def pageOf_def limitOf_def sortOf_def commentsQuery_def [abs_def] Let_def
    by (simp only: nn if_False)
qed

lemma getReplies_unfold:
  "getReplies db caller i qpage qlimit qsort =
     (if sortOf qsort \<notin> set validSortOptions then Failure 400 ''Invalid sort option''
      else if (case findById db i of None \<Rightarrow> True | Some parent \<Rightarrow> \<not> isActive parent)
      then Failure 404 ''Parent comment not found or inactive''
      else
        let replies = take (nat (limitOf qlimit)) (drop (nat ((pageOf qpage - 1) * limitOf qlimit))
                         (sortBy (comes_first (sortObjOf (sortOf qsort)))
                            (filter (repliesQuery i) db)));
            tot = int (countDocuments (repliesQuery i) db)
        in if replies = [] \<and> pageOf qpage > totalPagesOf tot (limitOf qlimit)
                \<and> totalPagesOf tot (limitOf qlimit) > 0
           then PageExceeds (pageOf qpage) (totalPagesOf tot (limitOf qlimit)) tot
           else Listing (map (annotate caller None) replies)
                  (paginationOf (pageOf qpage) (limitOf qlimit) tot))"
proof -
  have "0 \<le> (pageOf qpage - 1) * limitOf qlimit"
    using pageOf_ge [of qpage] limitOf_range(1) [of qlimit] by simp
  then have nn: "\<not> (max 1 (orDefault qpage 1) - 1) * min (max 1 (orDefault qlimit 10)) 100 < 0"
    unfolding pageOf_def limitOf_def by linarith
  show ?thesis
    unfolding getReplies_def pageOf_def limitOf_def sortOf_def repliesQuery_def [abs_def] Let_def
    by (simp only: nn if_False)
qed

lemma paginationOf_fields:
  "currentPage (paginationOf page l tot) = page"
  "limit (paginationOf page l tot) = l"
  "total (paginationOf page l tot) = tot"
  "totalPages (paginationOf page l tot) = \<lceil>real_of_int tot / real_of_int l\<rceil>"
  "hasNextPage (paginationOf page l tot) = (page < \<lceil>real_of_int tot / real_of_int l\<rceil>)"
  "hasPrevPage (paginationOf page l tot) = (page > 1)"
  "isFirstPage (paginationOf page l tot) = (page = 1)"
  "isLastPage (paginationOf page l tot) = (page = \<lceil>real_of_int tot / real_of_int l\<rceil>)"
  "startIndex (paginationOf page l tot) = (page - 1) * l + 1"
  "endIndex (paginationOf page l tot) = min (page * l) tot"
  "remainingItems (paginationOf page l tot) = max 0 (tot - page * l)"
  by (simp_all add: paginationOf_def totalPagesOf_def Let_def algebra_simps)

lemma getComments_block:
  "paginationBlock (getComments db caller qpage qlimit qsort qparent) = Some p \<Longrightarrow>
   p = paginationOf (pageOf qpage) (limitOf qlimit) (int (countDocuments (commentsQuery qparent) db))"
  unfolding getComments_unfold Let_def
  by (simp add: paginationBlock_def split: if_splits)

lemma getReplies_block:
  "paginationBlock (getReplies db caller i qpage qlimit qsort) = Some p \<Longrightarrow>
   p = paginationOf (pageOf qpage) (limitOf qlimit) (int (countDocuments (repliesQuery i) db))"
  unfolding getReplies_unfold Let_def
  by (simp add: paginationBlock_def split: if_splits)

text \<open>
  Claim C5. The pagination block of every successful listing (of comments or of
  replies) satisfies, for its own \<open>currentPage\<close>, \<open>limit\<close> and \<open>total\<close>:
  \<open>startIndex = (page - 1) * limit + 1\<close>, \<open>endIndex = min (page * limit) total\<close>,
  \<open>remainingItems = max 0 (total - page * limit)\<close>,
  \<open>totalPages = ceil (total / limit)\<close>, \<open>hasNextPage = (page < totalPages)\<close>,
  \<open>hasPrevPage = (page > 1)\<close>, \<open>isFirstPage = (page = 1)\<close> and
  \<open>isLastPage = (page = totalPages)\<close>; the page and the limit are the clamped ones of
  the request and the total is the number of documents the query matches. The witness
  lists 25 comments by 10: page 1 has start 1, end 10, 15 remaining, a next page and is
  the first; page 3 has start 21, end 25, none remaining and is the last.
\<close>

theorem pagination_metadata:
  assumes "paginationBlock (getComments db caller qpage qlimit qsort qparent) = Some p \<or>
           paginationBlock (getReplies db caller i qpage qlimit qsort) = Some p"
  shows "currentPage p = pageOf qpage \<and> limit p = limitOf qlimit \<and>
         startIndex p = (currentPage p - 1) * limit p + 1 \<and>
         endIndex p = min (currentPage p * limit p) (total p) \<and>
         remainingItems p = max 0 (total p - currentPage p * limit p) \<and>
         totalPages p = \<lceil>real_of_int (total p) / real_of_int (limit p)\<rceil> \<and>
         hasNextPage p = (currentPage p < totalPages p) \<and>
         hasPrevPage p = (currentPage p > 1) \<and>
         isFirstPage p = (currentPage p = 1) \<and>
         isLastPage p = (currentPage p = totalPages p) \<and>
         (total p = int (countDocuments (commentsQuery qparent) db) \<or>
          total p = int (countDocuments (repliesQuery i) db))"
proof -
  from assms obtain tot where p: "p = paginationOf (pageOf qpage) (limitOf qlimit) tot"
    and tot: "tot = int (countDocuments (commentsQuery qparent) db) \<or>
              tot = int (countDocuments (repliesQuery i) db)"
    using getComments_block getReplies_block by blast
  show ?thesis
    unfolding p using tot by (simp add: paginationOf_fields)
qed

theorem pagination_metadata_witness:
  "paginationBlock (getComments store25 None (Some 1) (Some 10) None Absent) =
     Some (paginationOf 1 10 25) \<and>
   startIndex (paginationOf 1 10 25) = 1 \<and> endIndex (paginationOf 1 10 25) = 10 \<and>
   remainingItems (paginationOf 1 10 25) = 15 \<and> hasNextPage (paginationOf 1 10 25) \<and>
   isFirstPage (paginationOf 1 10 25) \<and>
   paginationBlock (getComments store25 None (Some 3) (Some 10) None Absent) =
     Some (paginationOf 3 10 25) \<and>
   startIndex (paginationOf 3 10 25) = 21 \<and> endIndex (paginationOf 3 10 25) = 25 \<and>
   remainingItems (paginationOf 3 10 25) = 0 \<and> isLastPage (paginationOf 3 10 25)"
proof -
  have h1: "paginationBlock (getComments store25 None (Some 1) (Some 10) None Absent) =
              Some (paginationOf 1 10 25)"
    by code_simp
  have h3: "paginationBlock (getComments store25 None (Some 3) (Some 10) None Absent) =
              Some (paginationOf 3 10 25)"
    by code_simp
  have q: "pageOf (Some 1) = 1" "pageOf (Some 3) = 3" "limitOf (Some 10) = 10"
    by (simp_all add: pageOf_def limitOf_def orDefault_def)
  have t: "total (paginationOf 1 10 25) = 25" "total (paginationOf 3 10 25) = 25"
    by (simp_all add: paginationOf_fields)
  note w1 = pagination_metadata [OF disjI1 [OF h1], where i = 0, unfolded q]
  note w3 = pagination_metadata [OF disjI1 [OF h3], where i = 0, unfolded q]
  have c1: "currentPage (paginationOf 1 10 25) = 1" "limit (paginationOf 1 10 25) = 10"
    using w1 by blast+
  have c3: "currentPage (paginationOf 3 10 25) = 3" "limit (paginationOf 3 10 25) = 10"
    using w3 by blast+
  have tp1: "totalPages (paginationOf 1 10 25) = 3"
    using w1 by (simp add: c1 t)
  have tp3: "totalPages (paginationOf 3 10 25) = 3"
    using w3 by (simp add: c3 t)
  have "startIndex (paginationOf 1 10 25) = 1" "endIndex (paginationOf 1 10 25) = 10"
    "remainingItems (paginationOf 1 10 25) = 15" "hasNextPage (paginationOf 1 10 25)"
    "isFirstPage (paginationOf 1 10 25)"
    using w1 by (simp_all add: c1 t tp1)
  moreover have "startIndex (paginationOf 3 10 25) = 21" "endIndex (paginationOf 3 10 25) = 25"
    "remainingItems (paginationOf 3 10 25) = 0" "isLastPage (paginationOf 3 10 25)"
    using w3 by (simp_all add: c3 t tp3)
  ultimately show ?thesis
    using h1 h3 by blast
qed

lemma page_beyond_is_empty:
  assumes "totalPagesOf (int (length xs)) (limitOf qlimit) < pageOf qpage"
  shows "take (nat (limitOf qlimit)) (drop (nat ((pageOf qpage - 1) * limitOf qlimit))
           (sortBy f xs)) = []"
proof -
  have "0 < limitOf qlimit" using limitOf_range(1) [of qlimit] by simp
  then have "int (length xs) \<le> (pageOf qpage - 1) * limitOf qlimit"
    using assms by (rule beyond_last_page_skips_all)
  then have "length (sortBy f xs) \<le> nat ((pageOf qpage - 1) * limitOf qlimit)"
    by simp
  then show ?thesis by simp
qed

text \<open>
  Claim C6, as stated, fails for \<open>total = 0\<close>: the test is
  \<open>page > totalPages && totalPages > 0\<close>, so with no comment at all page 2 is an
  empty successful listing.
\<close>

theorem empty_listing_is_success:
  "getComments [] None (Some 2) None None Absent =
     Listing []
       \<lparr>currentPage = 2, limit = 10, total = 0, totalPages = 0,
        hasNextPage = False, hasPrevPage = True, isFirstPage = False, isLastPage = False,
        startIndex = 11, endIndex = 0, remainingItems = 0\<rparr>"
  by (simp add: getComments_unfold sortOf_def validSortOptions_def pageOf_def limitOf_def
      orDefault_def countDocuments_def totalPagesOf_def paginationOf_def sortBy_def Let_def)

text \<open>
  Claim C6, amended. With a valid sort option (and a well-formed parent id, resp. an
  existing active parent), a listing whose query matches at least one document answers
  the error that names \<open>currentPage\<close>, \<open>totalPages\<close> and \<open>total\<close> for every page
  beyond \<open>totalPages\<close>; when the query matches no document, every page is an empty
  successful listing.
\<close>

theorem page_beyond_last_is_error:
  fixes db :: store and qparent :: idParam and i :: objectId and tot rtot :: int
  defines "tot \<equiv> int (countDocuments (commentsQuery qparent) db)"
    and "rtot \<equiv> int (countDocuments (repliesQuery i) db)"
  assumes "sortOf qsort \<in> set validSortOptions"
  shows "(qparent \<noteq> Malformed \<and> 0 < tot \<and> totalPagesOf tot (limitOf qlimit) < pageOf qpage \<longrightarrow>
            getComments db caller qpage qlimit qsort qparent =
              PageExceeds (pageOf qpage) (totalPagesOf tot (limitOf qlimit)) tot) \<and>
         (qparent \<noteq> Malformed \<and> tot = 0 \<longrightarrow>
            getComments db caller qpage qlimit qsort qparent =
              Listing [] (paginationOf (pageOf qpage) (limitOf qlimit) 0)) \<and>
         ((\<exists>parent. findById db i = Some parent \<and> isActive parent) \<and> 0 < rtot \<and>
          totalPagesOf rtot (limitOf qlimit) < pageOf qpage \<longrightarrow>
            getReplies db caller i qpage qlimit qsort =
              PageExceeds (pageOf qpage) (totalPagesOf rtot (limitOf qlimit)) rtot) \<and>
         ((\<exists>parent. findById db i = Some parent \<and> isActive parent) \<and> rtot = 0 \<longrightarrow>
            getReplies db caller i qpage qlimit qsort =
              Listing [] (paginationOf (pageOf qpage) (limitOf qlimit) 0))"
proof (intro conjI impI)
  have lpos: "0 < limitOf qlimit" using limitOf_range(1) [of qlimit] by simp
  {
    assume a: "qparent \<noteq> Malformed \<and> 0 < tot \<and> totalPagesOf tot (limitOf qlimit) < pageOf qpage"
    then have e: "take (nat (limitOf qlimit)) (drop (nat ((pageOf qpage - 1) * limitOf qlimit))
           (sortBy (comes_first (sortObjOf (sortOf qsort))) (filter (commentsQuery qparent) db))) = []"
      by (intro page_beyond_is_empty) (simp add: tot_def countDocuments_def)
    have "0 < totalPagesOf tot (limitOf qlimit)"
      using a lpos by (simp add: totalPagesOf_pos)
    then show "getComments db caller qpage qlimit qsort qparent =
              PageExceeds (pageOf qpage) (totalPagesOf tot (limitOf qlimit)) tot"
      unfolding getComments_unfold Let_def e
      using a assms(3) by (simp add: tot_def)
  }
  {
    assume a: "qparent \<noteq> Malformed \<and> tot = 0"
    then have "filter (commentsQuery qparent) db = []"
      by (simp add: tot_def countDocuments_def)
    then show "getComments db caller qpage qlimit qsort qparent =
              Listing [] (paginationOf (pageOf qpage) (limitOf qlimit) 0)"
      unfolding getComments_unfold Let_def
      using a assms(3) by (simp add: countDocuments_def sortBy_def totalPagesOf_zero)
  }
  {
    assume a: "(\<exists>parent. findById db i = Some parent \<and> isActive parent) \<and> 0 < rtot \<and>
          totalPagesOf rtot (limitOf qlimit) < pageOf qpage"
    then have e: "take (nat (limitOf qlimit)) (drop (nat ((pageOf qpage - 1) * limitOf qlimit))
           (sortBy (comes_first (sortObjOf (sortOf qsort))) (filter (repliesQuery i) db))) = []"
      by (intro page_beyond_is_empty) (simp add: rtot_def countDocuments_def)
    have "0 < totalPagesOf rtot (limitOf qlimit)"
      using a lpos by (simp add: totalPagesOf_pos)
    then show "getReplies db caller i qpage qlimit qsort =
              PageExceeds (pageOf qpage) (totalPagesOf rtot (limitOf qlimit)) rtot"
      unfolding getReplies_unfold Let_def e
      using a assms(3) by (auto simp: rtot_def)
  }
  {
    assume a: "(\<exists>parent. findById db i = Some parent \<and> isActive parent) \<and> rtot = 0"
    then have "filter (repliesQuery i) db = []"
      by (simp add: rtot_def countDocuments_def)
    then show "getReplies db caller i qpage qlimit qsort =
              Listing [] (paginationOf (pageOf qpage) (limitOf qlimit) 0)"
      unfolding getReplies_unfold Let_def
      using a assms(3) by (auto simp: countDocuments_def sortBy_def totalPagesOf_zero)
  }
qed

theorem page_beyond_last_is_error_witness:
  "sortOf None \<in> set validSortOptions \<and>
   getComments [sample, replySample] None (Some 2) None None Absent = PageExceeds 2 1 1 \<and>
   getReplies [sample, replySample] None 10 (Some 2) None None = PageExceeds 2 1 1 \<and>
   getComments [sample, replySample] None (Some 2) None None (Valid 11) =
     Listing [] (paginationOf 2 10 0) \<and>
   getReplies [sample, replySample] None 11 (Some 2) None None =
     Listing [] (paginationOf 2 10 0)"
proof -
  let ?db = "[sample, replySample]"
  have s: "sortOf None \<in> set validSortOptions"
    by (simp add: sortOf_def validSortOptions_def)
  have q: "pageOf (Some 2) = 2" "limitOf None = 10"
    by (simp_all add: pageOf_def limitOf_def orDefault_def)
  have n: "int (countDocuments (commentsQuery Absent) ?db) = 1"
    "int (countDocuments (repliesQuery 10) ?db) = 1"
    "int (countDocuments (commentsQuery (Valid 11)) ?db) = 0"
    "int (countDocuments (repliesQuery 11) ?db) = 0"
    by (simp_all add: countDocuments_def commentsQuery_def repliesQuery_def sample_def
        replySample_def)
  have tp: "totalPagesOf 1 10 = 1"
    by (simp add: totalPagesOf_def ceiling_eq_iff)
  have f: "\<exists>parent. findById ?db 10 = Some parent \<and> isActive parent"
    "\<exists>parent. findById ?db 11 = Some parent \<and> isActive parent"
    by (simp_all add: findById_def sample_def replySample_def)
  note w1 = page_beyond_last_is_error [OF s, where db = ?db and qparent = Absent and i = 10
      and qpage = "Some 2" and qlimit = None and caller = None, unfolded n q tp]
  note w2 = page_beyond_last_is_error [OF s, where db = ?db and qparent = "Valid 11" and i = 11
      and qpage = "Some 2" and qlimit = None and caller = None, unfolded n q tp]
  from w1 f(1) have "getComments ?db None (Some 2) None None Absent = PageExceeds 2 1 1"
    and "getReplies ?db None 10 (Some 2) None None = PageExceeds 2 1 1"
    by simp_all
  moreover from w2 f(2) have
    "getComments ?db None (Some 2) None None (Valid 11) = Listing [] (paginationOf 2 10 0)"
    and "getReplies ?db None 11 (Some 2) None None = Listing [] (paginationOf 2 10 0)"
    by simp_all
  ultimately show ?thesis using s by blast
qed

section \<open>Order of a listing\<close>

text \<open>
  With \<open>sort=newest\<close> (also the default) the comments of a page are in descending
  order of \<open>createdAt\<close>.
\<close>

lemma sorted_insertBy:
  assumes total: "\<And>a b. first a b \<or> first b a"
    and trans: "\<And>a b c. first a b \<Longrightarrow> first b c \<Longrightarrow> first a c"
  shows "sorted_wrt first xs \<Longrightarrow> sorted_wrt first (insertBy first x xs)"
proof (induction xs)
  case Nil
  then show ?case by simp
next
  case (Cons y ys)
  show ?case
  proof (cases "first x y")
    case True
    then have "\<forall>z \<in> set ys. first x z"
      using Cons.prems trans by auto
    with True Cons.prems show ?thesis by simp
  next
    case False
    then have "first y x" using total by blast
    with False Cons show ?thesis by auto
  qed
qed

lemma sorted_sortBy:
  assumes "\<And>a b. first a b \<or> first b a"
    and "\<And>a b c. first a b \<Longrightarrow> first b c \<Longrightarrow> first a c"
  shows "sorted_wrt first (sortBy first xs)"
  unfolding sortBy_def
  by (induction xs) (simp_all add: sorted_insertBy [OF assms])

lemma comes_first_newest:
  "comes_first (sortObjOf ''newest'') a b \<longleftrightarrow> createdAt b \<le> createdAt a"
  by (auto simp: sortObjOf_def fieldKey_def)

lemma sorted_wrt_take_drop:
  "sorted_wrt P xs \<Longrightarrow> sorted_wrt P (take n (drop k xs))"
  by (metis append_take_drop_id sorted_wrt_append)

lemma createdAt_annotate [simp]: "createdAt (annotate caller rc c) = createdAt c"
  by (simp add: annotate_def comment.defs listed.defs)

lemma newest_page_sorted:
  "sorted_wrt (\<lambda>a b. createdAt b \<le> createdAt a)
     (map (\<lambda>c. annotate caller (rc c) c)
        (take n (drop k (sortBy (comes_first (sortObjOf ''newest'')) xs))))"
proof -
  have "sorted_wrt (comes_first (sortObjOf ''newest'')) (sortBy (comes_first (sortObjOf ''newest'')) xs)"
    by (rule sorted_sortBy) (auto simp: comes_first_newest)
  then have "sorted_wrt (\<lambda>a b. createdAt b \<le> createdAt a)
               (take n (drop k (sortBy (comes_first (sortObjOf ''newest'')) xs)))"
    unfolding comes_first_newest by (rule sorted_wrt_take_drop)
  then show ?thesis
    by (simp add: sorted_wrt_map)
qed

lemma newest_is_by_createdAt:
  assumes "sortOf qsort = ''newest''"
  shows "sorted_wrt (\<lambda>a b. createdAt b \<le> createdAt a)
           (listedComments (getComments db caller qpage qlimit qsort qparent))"
    and "sorted_wrt (\<lambda>a b. createdAt b \<le> createdAt a)
           (listedComments (getReplies db caller i qpage qlimit qsort))"
  unfolding getComments_unfold getReplies_unfold Let_def assms
  using newest_page_sorted [of caller "\<lambda>c. Some (populateReplyCount db c)"]
    newest_page_sorted [of caller "\<lambda>c. None"]
  by (simp_all add: listedComments_def)

text \<open>
  Claim C4. With \<open>sort=mostLiked\<close> the controller asks for
  \<open>{ likes: -1, createdAt: -1 }\<close>: the store orders by the \<open>likes\<close> arrays
  themselves, that is by their greatest entry, and no code takes their size. The
  comment with one like, by the user with the greater id, is listed before the comment
  with two likes, in whichever order the two are stored.
\<close>

theorem mostLiked_puts_fewer_likes_first:
  "map (\<lambda>c. (oid c, likeCount c))
     (listedComments (getComments [onceLiked, twiceLiked] None None None (Some ''mostLiked'') Absent)) =
     [(20, 1), (21, 2)] \<and>
   map (\<lambda>c. (oid c, likeCount c))
     (listedComments (getComments [twiceLiked, onceLiked] None None None (Some ''mostLiked'') Absent)) =
     [(20, 1), (21, 2)]"
  by code_simp

section \<open>The client's merge of events\<close>

lemma applyReaction_counts:
  "likeCount (applyReaction data localUser prev) = ev_likeCount data"
  "dislikeCount (applyReaction data localUser prev) = ev_dislikeCount data"
  by (simp_all add: applyReaction_def Let_def split: reactionType.splits)

lemma applyReaction_other_user:
  assumes "Some (ev_userId data) \<noteq> localUser"
  shows "isLikedByUser (applyReaction data localUser prev) = isLikedByUser prev"
    and "isDislikedByUser (applyReaction data localUser prev) = isDislikedByUser prev"
  using assms by (simp_all add: applyReaction_def Let_def)

lemma applyReaction_oid [simp]: "oid (applyReaction data localUser prev) = oid prev"
  by (simp add: applyReaction_def Let_def split: reactionType.splits)

lemma handleNewReply_present:
  assumes "list_ex (\<lambda>reply. oid reply = oid newComment) (realTimeReplies s)"
  shows "realTimeReplies (handleNewReply newComment s) = realTimeReplies s"
  using assms by (simp add: handleNewReply_def)

lemma handleNewReply_twice:
  "realTimeReplies (handleNewReply newComment (handleNewReply newComment s)) =
   realTimeReplies (handleNewReply newComment s)"
  by (simp add: handleNewReply_def)

lemma handleNewReply_replies: "replies (handleNewReply newComment s) = replies s"
  by (simp add: handleNewReply_def)

lemma allReplies_no_duplicate:
  assumes "oid newComment \<in> set (map oid (replies s)) \<union> set (map oid (realTimeReplies s))"
  shows "allReplies (handleNewReply newComment s) = allReplies s"
proof (cases "list_ex (\<lambda>reply. oid reply = oid newComment) (realTimeReplies s)")
  case True
  then show ?thesis
    by (simp add: allReplies_def handleNewReply_present handleNewReply_replies)
next
  case False
  then have "oid newComment \<in> set (map oid (replies s))"
    using assms by (auto simp: list_ex_iff)
  then show ?thesis
    by (simp add: allReplies_def handleNewReply_def Let_def)
qed

lemma onCommentReaction_counts:
  "\<forall>c \<in> set (onCommentReaction data localUser prev).
      oid c = ev_commentId data \<longrightarrow>
        likeCount c = ev_likeCount data \<and> dislikeCount c = ev_dislikeCount data"
  unfolding onCommentReaction_def set_map ball_simps
  by (simp add: if_distrib [of oid] if_distrib [of likeCount] if_distrib [of dislikeCount]
      split del: if_split cong: if_cong)

lemma onCommentReaction_other_user:
  assumes "Some (ev_userId data) \<noteq> localUser"
  shows "map isLikedByUser (onCommentReaction data localUser prev) = map isLikedByUser prev"
    and "map isDislikedByUser (onCommentReaction data localUser prev) = map isDislikedByUser prev"
  using assms by (simp_all add: onCommentReaction_def)

lemma handleReplyReaction_other_user:
  assumes "Some (ev_userId data) \<noteq> localUser"
  shows "map isLikedByUser (replies (handleReplyReaction data localUser s)) =
           map isLikedByUser (replies s)"
    and "map isDislikedByUser (replies (handleReplyReaction data localUser s)) =
           map isDislikedByUser (replies s)"
    and "map isLikedByUser (realTimeReplies (handleReplyReaction data localUser s)) =
           map isLikedByUser (realTimeReplies s)"
    and "map isDislikedByUser (realTimeReplies (handleReplyReaction data localUser s)) =
           map isDislikedByUser (realTimeReplies s)"
  by (simp_all add: handleReplyReaction_def Let_def applyReaction_other_user [OF assms])

lemma handleReplyReaction_counts:
  assumes "ev_commentId data \<noteq> oid (currentComment s)"
  shows "\<forall>reply \<in> set (replies (handleReplyReaction data localUser s)) \<union>
                    set (realTimeReplies (handleReplyReaction data localUser s)).
         oid reply = ev_commentId data \<longrightarrow>
           likeCount reply = ev_likeCount data \<and> dislikeCount reply = ev_dislikeCount data"
  using assms
  by (auto simp: handleReplyReaction_def Let_def applyReaction_counts split: if_splits)

lemma handleCommentReaction_counts:
  assumes "ev_commentId data = oid (currentComment s)"
  shows "likeCount (currentComment (handleCommentReaction data localUser s)) = ev_likeCount data"
    and "dislikeCount (currentComment (handleCommentReaction data localUser s)) =
           ev_dislikeCount data"
  using assms by (simp_all add: handleCommentReaction_def applyReaction_counts)

lemma handleCommentReaction_other_user:
  assumes "Some (ev_userId data) \<noteq> localUser"
  shows "isLikedByUser (currentComment (handleCommentReaction data localUser s)) =
           isLikedByUser (currentComment s)"
    and "isDislikedByUser (currentComment (handleCommentReaction data localUser s)) =
           isDislikedByUser (currentComment s)"
  by (simp_all add: handleCommentReaction_def applyReaction_other_user [OF assms])

text \<open>
  What the merge does keep. A \<open>newReply\<close> event whose id is already among the
  replies held (those loaded from the server or those received as events) leaves the
  displayed replies as they were; one whose id is among the real-time replies leaves
  that list as it was; the loaded replies are never touched. A reaction event on the
  displayed comment sets its \<open>likeCount\<close> and \<open>dislikeCount\<close> to those of the
  event, whoever reacted, and so do the events on a reply and on the list of comments;
  when the event's user is not the local user, no like or dislike flag changes.
\<close>

lemma client_merge:
  "(oid newComment \<in> set (map oid (replies s)) \<union> set (map oid (realTimeReplies s)) \<longrightarrow>
      allReplies (handleNewReply newComment s) = allReplies s) \<and>
   (list_ex (\<lambda>reply. oid reply = oid newComment) (realTimeReplies s) \<longrightarrow>
      realTimeReplies (handleNewReply newComment s) = realTimeReplies s) \<and>
   realTimeReplies (handleNewReply newComment (handleNewReply newComment s)) =
     realTimeReplies (handleNewReply newComment s) \<and>
   replies (handleNewReply newComment s) = replies s \<and>
   (ev_commentId data = oid (currentComment s) \<longrightarrow>
      likeCount (currentComment (handleCommentReaction data localUser s)) = ev_likeCount data \<and>
      dislikeCount (currentComment (handleCommentReaction data localUser s)) = ev_dislikeCount data) \<and>
   (Some (ev_userId data) \<noteq> localUser \<longrightarrow>
      isLikedByUser (currentComment (handleCommentReaction data localUser s)) =
        isLikedByUser (currentComment s) \<and>
      isDislikedByUser (currentComment (handleCommentReaction data localUser s)) =
        isDislikedByUser (currentComment s) \<and>
      map isLikedByUser (replies (handleReplyReaction data localUser s)) =
        map isLikedByUser (replies s) \<and>
      map isDislikedByUser (replies (handleReplyReaction data localUser s)) =
        map isDislikedByUser (replies s) \<and>
      map isLikedByUser (realTimeReplies (handleReplyReaction data localUser s)) =
        map isLikedByUser (realTimeReplies s) \<and>
      map isDislikedByUser (realTimeReplies (handleReplyReaction data localUser s)) =
        map isDislikedByUser (realTimeReplies s) \<and>
      map isLikedByUser (onCommentReaction data localUser prev) = map isLikedByUser prev \<and>
      map isDislikedByUser (onCommentReaction data localUser prev) = map isDislikedByUser prev) \<and>
   (\<forall>c \<in> set (onCommentReaction data localUser prev).
      oid c = ev_commentId data \<longrightarrow>
        likeCount c = ev_likeCount data \<and> dislikeCount c = ev_dislikeCount data) \<and>
   (ev_commentId data \<noteq> oid (currentComment s) \<longrightarrow>
      (\<forall>reply \<in> set (replies (handleReplyReaction data localUser s)) \<union>
                    set (realTimeReplies (handleReplyReaction data localUser s)).
         oid reply = ev_commentId data \<longrightarrow>
           likeCount reply = ev_likeCount data \<and> dislikeCount reply = ev_dislikeCount data))"
  using allReplies_no_duplicate [of newComment s] handleNewReply_present [of newComment s]
    handleNewReply_twice [of newComment s] handleNewReply_replies [of newComment s]
    handleCommentReaction_counts [of data s localUser]
    handleCommentReaction_other_user [of data localUser s]
    handleReplyReaction_other_user [of data localUser s]
    onCommentReaction_other_user [of data localUser prev]
    onCommentReaction_counts [of data localUser prev]
    handleReplyReaction_counts [of data s localUser]
  by blast

lemma sample_ids:
  "oid listedSample = 10" "oid listedReply = 11" "parentComment listedReply = Some 10"
  by (simp_all add: listedSample_def listedReply_def annotate_def sample_def replySample_def
      comment.defs listed.defs)

lemma client_merge_at_sample:
  "oid listedReply \<in> set (map oid (replies itemSample)) \<union> set (map oid (realTimeReplies itemSample)) \<and>
   list_ex (\<lambda>reply. oid reply = oid listedReply) (realTimeReplies itemSample) \<and>
   ev_commentId likeEvent = oid (currentComment itemSample) \<and>
   Some (ev_userId likeEvent) \<noteq> Some (4::nat) \<and>
   ev_commentId replyLikeEvent \<noteq> oid (currentComment itemSample) \<and>
   map oid (onCommentReaction likeEvent (Some 4) [listedSample]) = [10] \<and>
   map likeCount (onCommentReaction likeEvent (Some 4) [listedSample]) = [2] \<and>
   map oid (realTimeReplies (handleReplyReaction replyLikeEvent (Some 4) itemSample)) = [11] \<and>
   map likeCount (realTimeReplies (handleReplyReaction replyLikeEvent (Some 4) itemSample)) = [1] \<and>
   allReplies (handleNewReply listedReply itemSample) = allReplies itemSample \<and>
   realTimeReplies (handleNewReply listedReply itemSample) = [listedReply] \<and>
   likeCount (currentComment (handleCommentReaction likeEvent (Some 4) itemSample)) = 2 \<and>
   dislikeCount (currentComment (handleCommentReaction likeEvent (Some 4) itemSample)) = 1 \<and>
   isLikedByUser (currentComment (handleCommentReaction likeEvent (Some 4) itemSample)) =
     isLikedByUser listedSample \<and>
   isDislikedByUser (currentComment (handleCommentReaction likeEvent (Some 4) itemSample)) =
     isDislikedByUser listedSample"
proof -
  have h1: "oid listedReply \<in> set (map oid (replies itemSample)) \<union>
              set (map oid (realTimeReplies itemSample))"
    by (simp add: itemSample_def)
  have h2: "list_ex (\<lambda>reply. oid reply = oid listedReply) (realTimeReplies itemSample)"
    by (simp add: itemSample_def)
  have h3: "ev_commentId likeEvent = oid (currentComment itemSample)"
    by (simp add: itemSample_def likeEvent_def sample_ids)
  have h4: "Some (ev_userId likeEvent) \<noteq> Some (4::nat)"
    by (simp add: likeEvent_def)
  have h5: "ev_commentId replyLikeEvent \<noteq> oid (currentComment itemSample)"
    by (simp add: itemSample_def replyLikeEvent_def sample_ids)
  have h6: "map oid (onCommentReaction likeEvent (Some 4) [listedSample]) = [10]"
    "map likeCount (onCommentReaction likeEvent (Some 4) [listedSample]) = [2]"
    by (simp_all add: onCommentReaction_def likeEvent_def sample_ids)
  have h7: "map oid (realTimeReplies (handleReplyReaction replyLikeEvent (Some 4) itemSample)) = [11]"
    "map likeCount (realTimeReplies (handleReplyReaction replyLikeEvent (Some 4) itemSample)) = [1]"
    by (simp_all add: handleReplyReaction_def applyReaction_counts replyLikeEvent_def
        itemSample_def sample_ids Let_def)
  have c: "currentComment itemSample = listedSample" "realTimeReplies itemSample = [listedReply]"
    "ev_likeCount likeEvent = 2" "ev_dislikeCount likeEvent = 1"
    by (simp_all add: itemSample_def likeEvent_def)
  note w = client_merge [where newComment = listedReply and s = itemSample and data = likeEvent
      and localUser = "Some 4" and prev = "[listedSample]"]
  from w h1 h2 h3 h4 have
    "allReplies (handleNewReply listedReply itemSample) = allReplies itemSample"
    "realTimeReplies (handleNewReply listedReply itemSample) = realTimeReplies itemSample"
    "likeCount (currentComment (handleCommentReaction likeEvent (Some 4) itemSample)) =
       ev_likeCount likeEvent"
    "dislikeCount (currentComment (handleCommentReaction likeEvent (Some 4) itemSample)) =
       ev_dislikeCount likeEvent"
    "isLikedByUser (currentComment (handleCommentReaction likeEvent (Some 4) itemSample)) =
       isLikedByUser (currentComment itemSample)"
    "isDislikedByUser (currentComment (handleCommentReaction likeEvent (Some 4) itemSample)) =
       isDislikedByUser (currentComment itemSample)"
    by blast+
  then show ?thesis
    unfolding c using h1 h2 h3 h4 h5 h6 h7 unfolding c by blast
qed

text \<open>
  The merge as a whole is not idempotent: \<open>handleNewReply\<close> adds one to
  \<open>replyCount\<close> outside the test for an entry with the same id, so for every reply of
  the displayed comment a second merge of the same event changes the state again.
\<close>

lemma handleNewReply_never_idempotent:
  "parentComment n = Some (oid (currentComment s)) \<Longrightarrow>
   handleNewReply n (handleNewReply n s) \<noteq> handleNewReply n s"
proof
  assume p: "parentComment n = Some (oid (currentComment s))"
    and e: "handleNewReply n (handleNewReply n s) = handleNewReply n s"
  have "replyCount (currentComment (handleNewReply n (handleNewReply n s))) =
        replyCount (currentComment (handleNewReply n s))"
    using e by simp
  then show False
    using p by (simp add: handleNewReply_def)
qed

text \<open>
  Claim C9. The client shows comment 10 with one reply, 11, held as a real-time
  reply, and a count of 1. The \<open>newReply\<close> event for reply 11 arrives again: the list
  keeps its single entry, but the count becomes 2, and 3 with one more delivery, so
  merging the event twice is not merging it once. When reply 11 is held only among the
  replies loaded from the server, the event stores it a second time, among the
  real-time replies, where only \<open>allReplies\<close> hides it.
\<close>

theorem duplicate_newReply_counted_again:
  "parentComment listedReply = Some (oid (currentComment itemSample)) \<and>
   list_ex (\<lambda>reply. oid reply = oid listedReply) (realTimeReplies itemSample) \<and>
   replyCount (currentComment itemSample) = Some 1 \<and>
   realTimeReplies (handleNewReply listedReply itemSample) = [listedReply] \<and>
   replyCount (currentComment (handleNewReply listedReply itemSample)) = Some 2 \<and>
   replyCount (currentComment (handleNewReply listedReply (handleNewReply listedReply itemSample))) =
     Some 3 \<and>
   handleNewReply listedReply (handleNewReply listedReply itemSample) \<noteq>
     handleNewReply listedReply itemSample \<and>
   realTimeReplies
     (handleNewReply listedReply (itemSample\<lparr>replies := [listedReply], realTimeReplies := []\<rparr>)) =
     [listedReply]"
proof -
  have rc: "replyCount listedSample = Some 1"
    by (simp add: listedSample_def annotate_def comment.defs listed.defs)
  have p: "parentComment listedReply = Some (oid (currentComment itemSample))"
    by (simp add: itemSample_def sample_ids)
  have one: "replyCount (currentComment (handleNewReply listedReply itemSample)) = Some 2"
    by (simp add: handleNewReply_def itemSample_def sample_ids rc)
  have two: "replyCount (currentComment (handleNewReply listedReply (handleNewReply listedReply itemSample))) = Some 3"
    by (simp add: handleNewReply_def itemSample_def sample_ids rc)
  have ne: "handleNewReply listedReply (handleNewReply listedReply itemSample) \<noteq>
     handleNewReply listedReply itemSample"
  proof
    assume "handleNewReply listedReply (handleNewReply listedReply itemSample) =
      handleNewReply listedReply itemSample"
    then have "replyCount (currentComment (handleNewReply listedReply (handleNewReply listedReply itemSample))) =
      replyCount (currentComment (handleNewReply listedReply itemSample))"
      by simp
    then show False by (simp add: one two)
  qed
  have l: "list_ex (\<lambda>reply. oid reply = oid listedReply) (realTimeReplies itemSample)"
    "realTimeReplies (handleNewReply listedReply itemSample) = [listedReply]"
    by (simp_all add: handleNewReply_def itemSample_def sample_ids)
  have again: "realTimeReplies
     (handleNewReply listedReply (itemSample\<lparr>replies := [listedReply], realTimeReplies := []\<rparr>)) =
     [listedReply]"
    by (simp add: handleNewReply_def itemSample_def sample_ids)
  have c: "replyCount (currentComment itemSample) = Some 1"
    by (simp add: itemSample_def rc)
  from p l c one two ne again show ?thesis by blast
qed

end
